theory Spec2Isabelle
  imports Main
begin

section \<open>The product dashboard of django-shop (shop/views/dashboard.py)\<close>

text \<open>
  The module is a router with a fixed route table and a view-set, \<open>ProductsDashboard\<close>,
  whose methods call into the web framework. The embedding keeps the methods as they are
  written and takes what the framework, the settings and the other modules of the shop
  provide as the fields of one record, \<open>env\<close>.
\<close>

subsection \<open>Data\<close>

text \<open>The options of a model class (\<open>Model._meta\<close>), as far as the module reads them.\<close>

record model_options =
  label_lower :: string
  model_name :: string
  verbose_name :: string
  verbose_name_plural :: string

text \<open>A product instance: its primary key, its model's options and \<open>str(instance)\<close>.\<close>

record product =
  pk :: string
  meta :: model_options
  str_of :: string

text \<open>
  The inner \<open>Meta\<close> class of a serializer class is an object of its own: a serializer class
  that inherits \<open>Meta\<close> shares it with its parent. Serializer classes therefore refer to their
  \<open>Meta\<close> by address, and the objects live in a store.
\<close>

type_synonym addr = nat

record meta_class =
  Meta_fields :: "string list"
  Meta_model :: model_options

record serializer_class =
  cls_name :: string
  Meta :: addr

type_synonym form = "(string \<times> string) list"

record user =
  username :: string
  perms :: "string list"

record request =
  GET :: "(string \<times> string) list"
  data :: form
  path_info :: string
  request_user :: user

text \<open>
  A serializer object, as built by \<open>serializer_class(*args, **kwargs)\<close>. \<open>ser_errors\<close> is
  \<open>None\<close> until \<open>is_valid\<close> has run.
\<close>

record serializer =
  ser_class :: serializer_class
  ser_instance :: "product option"
  ser_data :: "form option"
  ser_many :: "bool option"
  ser_context :: "request option"
  ser_label :: "string option"
  ser_errors :: "(string \<times> string list) list option"

text \<open>The view-set instance (\<open>self\<close>). \<open>list_display\<close> is \<open>None\<close> when the attribute is absent.\<close>

record view =
  suffix :: "string option"
  action :: string
  list_serializer_class :: serializer_class
  detail_serializer_classes :: "(string \<times> serializer_class) list"
  list_display :: "string list option"
  request :: request
  lookup :: string

type_synonym database = "(string \<times> product) list"

text \<open>
  The state the methods read and write: the product table, the store of \<open>Meta\<close> objects and,
  as a trace, the serializers whose \<open>save\<close> has been called.
\<close>

record world =
  db :: database
  metas :: "addr \<Rightarrow> meta_class"
  saved :: "serializer list"

datatype exn =
    Http404
  | PermissionDenied
  | NotImplementedError string
  | AttributeError
  | TypeError
  | IndexError
  | ValueError
  | KeyError string

datatype pyval = PyNone | Serializer serializer | Instance product

datatype response =
    Response "(string \<times> pyval) list"
  | HttpResponseRedirect string

text \<open>
  What the module imports: framework functions, settings and the shop's own classes; and
  \<open>py_format\<close>, the language's own \<open>str.format\<close> on positional string arguments, which
  is consulted for the templates that \<open>str_format\<close> below does not work out itself.
\<close>

record env =
  drf_get_object :: "view \<Rightarrow> database \<Rightarrow> exn + product"
  run_validation :: "serializer \<Rightarrow> (string \<times> string list) list"
  orm_save :: "serializer \<Rightarrow> database \<Rightarrow> database"
  has_perm :: "user \<Rightarrow> string \<Rightarrow> bool"
  get_permission_codename :: "string \<Rightarrow> model_options \<Rightarrow> string"
  reverse :: "string \<Rightarrow> string list \<Rightarrow> string"
  ugettext_lazy :: "string \<Rightarrow> string"
  py_format :: "string \<Rightarrow> string list \<Rightarrow> exn + string"
  APP_LABEL :: string
  PRODUCT_SUMMARY_SERIALIZER :: serializer_class
  ProductModel :: model_options
  ProductSerializer :: serializer_class

subsection \<open>The route table\<close>

datatype route =
    Route string "(string \<times> string) list" string "(string \<times> string) list"
  | DynamicDetailRoute string string "(string \<times> string) list"

definition routes :: "route list" where
  "routes =
    [ Route ''^{prefix}{trailing_slash}$''
        [(''get'', ''list'')]
        ''{basename}-list''
        [(''suffix'', ''List'')],
      Route ''^{prefix}/{lookup}/change{trailing_slash}$''
        [(''get'', ''retrieve''), (''post'', ''update'')]
        ''{basename}-change''
        [(''suffix'', ''Instance'')],
      Route ''^{prefix}/add{trailing_slash}$''
        [(''get'', ''new''), (''post'', ''create'')]
        ''{basename}-add''
        [(''suffix'', ''New'')],
      DynamicDetailRoute ''^{prefix}/{lookup}/{methodname}{trailing_slash}$''
        ''{basename}-{methodnamehyphen}''
        [] ]"

text \<open>
  The fixed part of a route table, read as the router reads it: every entry of a
  \<open>Route\<close>'s mapping, with the route's URL pattern. A \<open>DynamicDetailRoute\<close> has no mapping.
\<close>

fun route_mappings :: "route \<Rightarrow> (string \<times> string \<times> string) list" where
  "route_mappings (Route url mapping name initkwargs) = map (\<lambda>(m, a). (url, m, a)) mapping"
| "route_mappings (DynamicDetailRoute url name initkwargs) = []"

definition method_map :: "route list \<Rightarrow> (string \<times> string \<times> string) list" where
  "method_map rs = concat (map route_mappings rs)"

subsection \<open>Statements, returns and exceptions\<close>

text \<open>
  A block of statements either runs to its end (\<open>Next\<close>), returns a value or raises. A
  method whose body runs to its end returns Python's \<open>None\<close>: \<open>py_call\<close> hands the caller
  \<open>None\<close> then, the returned value otherwise, and lets an exception pass.
\<close>

datatype 'a flow = Next | Return 'a | Raise exn

type_synonym 'a stmt = "world \<Rightarrow> 'a flow \<times> world"

definition py_return :: "'a \<Rightarrow> 'a stmt" where
  "py_return x = (\<lambda>w. (Return x, w))"

definition py_raise :: "exn \<Rightarrow> 'a stmt" where
  "py_raise e = (\<lambda>w. (Raise e, w))"

definition py_pass :: "'a stmt" where
  "py_pass = (\<lambda>w. (Next, w))"

definition py_seq :: "'a stmt \<Rightarrow> 'a stmt \<Rightarrow> 'a stmt" where
  "py_seq s k = (\<lambda>w. case s w of
      (Next, w') \<Rightarrow> k w'
    | (Return x, w') \<Rightarrow> (Return x, w')
    | (Raise e, w') \<Rightarrow> (Raise e, w'))"

definition py_call :: "'a stmt \<Rightarrow> ('a option \<Rightarrow> 'b stmt) \<Rightarrow> 'b stmt" where
  "py_call f k = (\<lambda>w. case f w of
      (Next, w') \<Rightarrow> k None w'
    | (Return x, w') \<Rightarrow> k (Some x) w'
    | (Raise e, w') \<Rightarrow> (Raise e, w'))"

subsection \<open>Built-ins\<close>

text \<open>
  \<open>str.format\<close> with positional string arguments and no keyword arguments. The template
  is read from left to right, and the first error met is the one raised:
  \<^item> \<open>{{\<close> and \<open>}}\<close> stand for one brace; a \<open>}\<close> on its own, a \<open>{\<close> at the end of the
    template and a replacement field that is not closed are \<open>ValueError\<close>s;
  \<^item> the field \<open>{}\<close> takes the next argument and \<open>{N}\<close> the argument of index \<open>N\<close>,
    \<open>IndexError\<close> when there is none; using both kinds in one template is a \<open>ValueError\<close>
    at the first field of the second kind; surplus arguments are ignored;
  \<^item> a field named by anything but a number is looked up among the keyword arguments, of
    which there are none: \<open>KeyError\<close>;
  \<^item> a string argument is inserted as it is.

  A field with a conversion, a format specification, an attribute or index lookup, or a
  number of more than nine digits, is not worked out here: on meeting one the scan answers
  \<open>Beyond\<close>, and \<open>str_format\<close> hands the whole template to \<open>py_format\<close>.
\<close>

datatype numbering = ANS_INIT | ANS_AUTO | ANS_MANUAL

datatype fmt = Formatted string | FormatError exn | Beyond

fun fmt_app :: "string \<Rightarrow> fmt \<Rightarrow> fmt" where
  "fmt_app a (Formatted s) = Formatted (a @ s)"
| "fmt_app a (FormatError e) = FormatError e"
| "fmt_app a Beyond = Beyond"

definition digit_char :: "char \<Rightarrow> bool" where
  "digit_char c = (c \<in> set ''0123456789'')"

definition name_char :: "char \<Rightarrow> bool" where
  "name_char c =
    (digit_char c \<or> c = CHR ''_'' \<or>
     c \<in> set ''abcdefghijklmnopqrstuvwxyz'' \<or> c \<in> set ''ABCDEFGHIJKLMNOPQRSTUVWXYZ'')"

definition nat_of_digits :: "string \<Rightarrow> nat" where
  "nat_of_digits ds = foldl (\<lambda>n c. 10 * n + (of_char c - 48)) 0 ds"

text \<open>
  \<open>fmt_scan st n args field t\<close> formats the rest \<open>t\<close> of a template: \<open>st\<close> says which kind
  of field has been used so far, \<open>n\<close> is the index the next \<open>{}\<close> takes, and \<open>field\<close> is
  \<open>None\<close> in literal text and the name read so far inside a replacement field.
\<close>

fun fmt_scan :: "numbering \<Rightarrow> nat \<Rightarrow> string list \<Rightarrow> string option \<Rightarrow> string \<Rightarrow> fmt" where
  "fmt_scan st n args None [] = Formatted []"
| "fmt_scan st n args None (c # t) =
    (if c = CHR ''{'' then
       (case t of
          [] \<Rightarrow> FormatError ValueError
        | d # t' \<Rightarrow>
            if d = CHR ''{'' then fmt_app ''{'' (fmt_scan st n args None t')
            else fmt_scan st n args (Some []) t)
     else if c = CHR ''}'' then
       (case t of
          [] \<Rightarrow> FormatError ValueError
        | d # t' \<Rightarrow>
            if d = CHR ''}'' then fmt_app ''}'' (fmt_scan st n args None t')
            else FormatError ValueError)
     else fmt_app [c] (fmt_scan st n args None t))"
| "fmt_scan st n args (Some name) [] = FormatError ValueError"
| "fmt_scan st n args (Some name) (c # t) =
    (if c = CHR ''}'' then
       (if name = [] then
          (if st = ANS_MANUAL then FormatError ValueError
           else if n < length args then
             fmt_app (args ! n) (fmt_scan ANS_AUTO (Suc n) args None t)
           else FormatError IndexError)
        else if list_all digit_char name then
          (if 9 < length name then Beyond
           else if st = ANS_AUTO then FormatError ValueError
           else if nat_of_digits name < length args then
             fmt_app (args ! nat_of_digits name) (fmt_scan ANS_MANUAL n args None t)
           else FormatError IndexError)
        else FormatError (KeyError name))
     else if name_char c then fmt_scan st n args (Some (name @ [c])) t
     else Beyond)"

definition str_format :: "env \<Rightarrow> string \<Rightarrow> string list \<Rightarrow> exn + string" where
  "str_format env t args =
    (case fmt_scan ANS_INIT 0 args None t of
       Formatted s \<Rightarrow> Inr s
     | FormatError e \<Rightarrow> Inl e
     | Beyond \<Rightarrow> py_format env t args)"

text \<open>
  \<open>dict.get(key, default)\<close> on a dictionary with string keys; the key looked up may be
  \<open>None\<close>, which is no key of such a dictionary.
\<close>

definition dict_get :: "(string \<times> 'v) list \<Rightarrow> string option \<Rightarrow> 'v \<Rightarrow> 'v" where
  "dict_get d key dflt =
    (case key of
       None \<Rightarrow> dflt
     | Some k \<Rightarrow> (case map_of d k of None \<Rightarrow> dflt | Some x \<Rightarrow> x))"

subsection \<open>Framework calls\<close>

text \<open>\<open>self.get_object()\<close>: the framework fetches the instance or raises.\<close>

definition get_object :: "env \<Rightarrow> view \<Rightarrow> product stmt" where
  "get_object env v = (\<lambda>w. case drf_get_object env v (db w) of
      Inl e \<Rightarrow> (Raise e, w)
    | Inr i \<Rightarrow> (Return i, w))"

text \<open>\<open>self.get_serializer_context()\<close>; of its entries the request is kept.\<close>

definition get_serializer_context :: "view \<Rightarrow> request" where
  "get_serializer_context v = request v"

record kwargs =
  kw_data :: "form option"
  kw_many :: "bool option"
  kw_context :: "request option"
  kw_label :: "string option"

definition no_kwargs :: kwargs where
  "no_kwargs = \<lparr>kw_data = None, kw_many = None, kw_context = None, kw_label = None\<rparr>"

text \<open>\<open>serializer_class(*args, **kwargs)\<close> with at most one positional argument.\<close>

definition instantiate :: "serializer_class \<Rightarrow> product option \<Rightarrow> kwargs \<Rightarrow> serializer" where
  "instantiate c args kw =
    \<lparr>ser_class = c, ser_instance = args, ser_data = kw_data kw, ser_many = kw_many kw,
     ser_context = kw_context kw, ser_label = kw_label kw, ser_errors = None\<rparr>"

text \<open>
  \<open>serializer.is_valid()\<close> runs the validation, stores the error messages on the serializer
  and answers whether there are none.
\<close>

definition is_valid :: "env \<Rightarrow> serializer \<Rightarrow> bool \<times> serializer" where
  "is_valid env s =
    (let errors = run_validation env s in (errors = [], s\<lparr>ser_errors := Some errors\<rparr>))"

text \<open>\<open>serializer.save()\<close> writes through the ORM.\<close>

definition save :: "env \<Rightarrow> serializer \<Rightarrow> 'a stmt" where
  "save env s = (\<lambda>w. (Next, w\<lparr>db := orm_save env s (db w), saved := saved w @ [s]\<rparr>))"

definition redirect :: "env \<Rightarrow> string \<Rightarrow> response" where
  "redirect env to = HttpResponseRedirect (reverse env to [])"

text \<open>The assignment \<open>serializer_class.Meta.fields = list_fields\<close>.\<close>

definition set_Meta_fields :: "serializer_class \<Rightarrow> string list \<Rightarrow> 'a stmt" where
  "set_Meta_fields c fs =
    (\<lambda>w. (Next, w\<lparr>metas := (metas w)(Meta c := (metas w (Meta c))\<lparr>Meta_fields := fs\<rparr>)\<rparr>))"

subsection \<open>DashboardRouter\<close>

definition DashboardRouter_get_breadcrumbs :: "env \<Rightarrow> (string \<times> string) list" where
  "DashboardRouter_get_breadcrumbs env =
    [(ugettext_lazy env ''Dashboard'', reverse env ''dashboard:root'' [])]"

subsection \<open>ProductsDashboard\<close>

definition not_implemented_msg :: string where
  "not_implemented_msg =
    ''ViewSet '' @ [CHR 0x27] @ ''ProductsDashboard'' @ [CHR 0x27] @
    '' is not implemented for action '' @ [CHR 0x27] @ ''{}'' @ [CHR 0x27]"

text \<open>
  The body of \<open>get_serializer_class\<close>, with the statement that follows its last \<open>return\<close>
  as the parameter \<open>tail\<close>; in the method that statement is the \<open>raise\<close>.
\<close>

definition get_serializer_class_body ::
    "serializer_class stmt \<Rightarrow> env \<Rightarrow> view \<Rightarrow> serializer_class stmt" where
  "get_serializer_class_body tail env v =
    py_seq
      (if suffix v = Some ''List'' then
         py_return (list_serializer_class v)
       else if suffix v = Some ''Instance'' then
         py_call (get_object env v) (\<lambda>instance.
           case instance of
             None \<Rightarrow> py_raise AttributeError
           | Some i \<Rightarrow>
               py_return (dict_get (detail_serializer_classes v) (Some (label_lower (meta i)))
                 (ProductSerializer env)))
       else if suffix v = Some ''New'' then
         (let model = map_of (GET (request v)) ''model'' in
          py_return (dict_get (detail_serializer_classes v) model (ProductSerializer env)))
       else py_pass)
      (py_seq (py_return (list_serializer_class v)) tail)"

definition raise_not_implemented :: "env \<Rightarrow> view \<Rightarrow> serializer_class stmt" where
  "raise_not_implemented env v =
    (case str_format env not_implemented_msg [action v] of
       Inl e \<Rightarrow> py_raise e
     | Inr msg \<Rightarrow> py_raise (NotImplementedError msg))"

definition get_serializer_class :: "env \<Rightarrow> view \<Rightarrow> serializer_class stmt" where
  "get_serializer_class env v = get_serializer_class_body (raise_not_implemented env v) env v"

definition get_list_display :: "view \<Rightarrow> string list stmt" where
  "get_list_display v =
    py_seq
      (case list_display v of
         Some ld \<Rightarrow> py_return ld
       | None \<Rightarrow> py_pass)
      (\<lambda>w. (Return (Meta_fields (metas w (Meta (list_serializer_class v)))), w))"

definition get_serializer :: "env \<Rightarrow> view \<Rightarrow> product option \<Rightarrow> kwargs \<Rightarrow> serializer stmt" where
  "get_serializer env v args kw =
    py_call (get_serializer_class env v) (\<lambda>serializer_class.
      let context = get_serializer_context v;
          kw = kw\<lparr>kw_context := Some context, kw_label := Some ''dashboard''\<rparr>
      in
      py_seq
        (if kw_many kw = Some True then
           py_call (get_list_display v) (\<lambda>ld.
             case ld of
               None \<Rightarrow> py_raise TypeError
             | Some ld \<Rightarrow>
                 (let list_fields = [''pk''] @ ld in
                  case serializer_class of
                    None \<Rightarrow> py_raise AttributeError
                  | Some c \<Rightarrow> set_Meta_fields c list_fields))
         else py_pass)
        (case serializer_class of
           None \<Rightarrow> py_raise TypeError
         | Some c \<Rightarrow> py_return (instantiate c args kw)))"

definition get_breadcrumbs :: "env \<Rightarrow> view \<Rightarrow> (string \<times> string) list stmt" where
  "get_breadcrumbs env v =
    (let breadcrumbs = DashboardRouter_get_breadcrumbs env;
         breadcrumbs = breadcrumbs @
           [(verbose_name_plural (ProductModel env), reverse env ''dashboard:product-list'' [])]
     in
     if suffix v = Some ''Instance'' then
       py_call (get_object env v) (\<lambda>instance.
         py_return (breadcrumbs @
           [(case instance of None \<Rightarrow> ''None'' | Some i \<Rightarrow> str_of i, path_info (request v))]))
     else if suffix v = Some ''New'' then
       py_call (get_serializer_class env v) (\<lambda>serializer_class.
         case serializer_class of
           None \<Rightarrow> py_raise AttributeError
         | Some c \<Rightarrow> (\<lambda>w.
             let options = Meta_model (metas w (Meta c)) in
             case str_format env (ugettext_lazy env ''Add {}'') [verbose_name options] of
               Inl e \<Rightarrow> (Raise e, w)
             | Inr label \<Rightarrow> (Return (breadcrumbs @ [(label, path_info (request v))]), w)))
     else py_return breadcrumbs)"

definition has_add_permission :: "env \<Rightarrow> view \<Rightarrow> bool stmt" where
  "has_add_permission env v =
    (let codename = get_permission_codename env ''add'' (ProductModel env) in
     case str_format env ''{}.{}'' [APP_LABEL env, codename] of
       Inl e \<Rightarrow> py_raise e
     | Inr perm \<Rightarrow> py_return (has_perm env (request_user (request v)) perm))"

definition serializer_val :: "serializer option \<Rightarrow> pyval" where
  "serializer_val s = (case s of None \<Rightarrow> PyNone | Some x \<Rightarrow> Serializer x)"

definition instance_val :: "product option \<Rightarrow> pyval" where
  "instance_val i = (case i of None \<Rightarrow> PyNone | Some x \<Rightarrow> Instance x)"

definition new :: "env \<Rightarrow> view \<Rightarrow> response stmt" where
  "new env v =
    py_call (get_serializer env v None no_kwargs) (\<lambda>serializer.
      py_return (Response [(''serializer'', serializer_val serializer)]))"

definition create :: "env \<Rightarrow> view \<Rightarrow> response stmt" where
  "create env v =
    py_call (get_serializer env v None (no_kwargs\<lparr>kw_data := Some (data (request v))\<rparr>))
      (\<lambda>serializer.
        case serializer of
          None \<Rightarrow> py_raise AttributeError
        | Some s \<Rightarrow>
            (let (valid, s) = is_valid env s in
             py_seq
               (if valid then
                  py_seq (save env s) (py_return (redirect env ''dashboard:product-list''))
                else py_pass)
               (py_return (Response [(''serializer'', Serializer s)]))))"

definition retrieve :: "env \<Rightarrow> view \<Rightarrow> response stmt" where
  "retrieve env v =
    py_call (get_object env v) (\<lambda>instance.
      py_call (get_serializer env v instance no_kwargs) (\<lambda>serializer.
        py_return (Response
          [(''serializer'', serializer_val serializer), (''instance'', instance_val instance)])))"

text \<open>The body of \<open>update\<close> ends after the \<open>if\<close>; there is no statement behind it.\<close>

definition update :: "env \<Rightarrow> view \<Rightarrow> response stmt" where
  "update env v =
    py_call (get_object env v) (\<lambda>instance.
      py_call (get_serializer env v instance (no_kwargs\<lparr>kw_data := Some (data (request v))\<rparr>))
        (\<lambda>serializer.
          case serializer of
            None \<Rightarrow> py_raise AttributeError
          | Some s \<Rightarrow>
              (let (valid, s) = is_valid env s in
               if valid then
                 py_seq (save env s) (py_return (redirect env ''dashboard:product-list''))
               else py_pass)))"

subsection \<open>A shop with one smart card\<close>

definition product_options :: model_options where
  "product_options =
    \<lparr>label_lower = ''myshop.product'', model_name = ''product'',
     verbose_name = ''Product'', verbose_name_plural = ''Products''\<rparr>"

definition smartcard_options :: model_options where
  "smartcard_options =
    \<lparr>label_lower = ''myshop.smartcard'', model_name = ''smartcard'',
     verbose_name = ''Smart Card'', verbose_name_plural = ''Smart Cards''\<rparr>"

definition summary_serializer :: serializer_class where
  "summary_serializer = \<lparr>cls_name = ''ProductSummarySerializer'', Meta = 0\<rparr>"

definition product_serializer :: serializer_class where
  "product_serializer = \<lparr>cls_name = ''ProductSerializer'', Meta = 1\<rparr>"

definition smartcard_serializer :: serializer_class where
  "smartcard_serializer = \<lparr>cls_name = ''SmartCardSerializer'', Meta = 2\<rparr>"

definition shop_metas :: "addr \<Rightarrow> meta_class" where
  "shop_metas a =
    (if a = 0 then \<lparr>Meta_fields = [''product_name'', ''price''], Meta_model = product_options\<rparr>
     else if a = 2 then
       \<lparr>Meta_fields = [''product_name'', ''card_type''], Meta_model = smartcard_options\<rparr>
     else \<lparr>Meta_fields = [''product_name''], Meta_model = product_options\<rparr>)"

definition sdhc_card :: product where
  "sdhc_card = \<lparr>pk = ''7'', meta = smartcard_options, str_of = ''SDHC Card 4GB''\<rparr>"

definition shop_world :: world where
  "shop_world = \<lparr>db = [(''7'', sdhc_card)], metas = shop_metas, saved = []\<rparr>"

definition admin :: user where
  "admin = \<lparr>username = ''admin'', perms = [''myshop.add_product'']\<rparr>"

definition shop_request :: "form \<Rightarrow> request" where
  "shop_request f =
    \<lparr>GET = [(''model'', ''myshop.smartcard'')], data = f,
     path_info = ''/dashboard/products/'', request_user = admin\<rparr>"

definition shop_view :: "string option \<Rightarrow> form \<Rightarrow> view" where
  "shop_view sfx f =
    \<lparr>suffix = sfx, action = ''list'', list_serializer_class = summary_serializer,
     detail_serializer_classes = [(''myshop.smartcard'', smartcard_serializer)],
     list_display = None, request = shop_request f, lookup = ''7''\<rparr>"

definition shop_env :: env where
  "shop_env =
    \<lparr>drf_get_object =
       (\<lambda>v d. case map_of d (lookup v) of None \<Rightarrow> Inl Http404 | Some i \<Rightarrow> Inr i),
     run_validation =
       (\<lambda>s. case ser_data s of
               None \<Rightarrow> [(''non_field_errors'', [''No data provided''])]
             | Some f \<Rightarrow>
                 (case map_of f ''product_name'' of
                    None \<Rightarrow> [(''product_name'', [''This field is required.''])]
                  | Some n \<Rightarrow> [])),
     orm_save =
       (\<lambda>s d. case ser_instance s of
                 None \<Rightarrow> d @ [(''8'', \<lparr>pk = ''8'', meta = smartcard_options, str_of = ''new''\<rparr>)]
               | Some i \<Rightarrow> (pk i, i\<lparr>str_of := ''changed''\<rparr>) # d),
     has_perm = (\<lambda>u p. p \<in> set (perms u)),
     get_permission_codename = (\<lambda>a opts. a @ ''_'' @ model_name opts),
     reverse =
       (\<lambda>name args. if name = ''dashboard:root'' then ''/dashboard/''
                     else if name = ''dashboard:product-list'' then ''/dashboard/products/''
                     else ''/''),
     ugettext_lazy = (\<lambda>msg. msg),
     py_format = (\<lambda>t args. Inl ValueError),
     APP_LABEL = ''myshop'',
     PRODUCT_SUMMARY_SERIALIZER = summary_serializer,
     ProductModel = product_options,
     ProductSerializer = product_serializer\<rparr>"

text \<open>The same shop with a translation of the message \<open>Add {}\<close> that uses a numbered field.\<close>

definition german_env :: env where
  "german_env =
    shop_env\<lparr>ugettext_lazy := (\<lambda>msg. if msg = ''Add {}'' then ''{0} hinzufuegen'' else msg)\<rparr>"

text \<open>Two posted forms, one without the required product name, and the serializer built on one.\<close>

definition good_form :: form where
  "good_form = [(''product_name'', ''SD 8GB'')]"

definition bad_form :: form where
  "bad_form = [(''price'', ''3'')]"

definition posted :: "product option \<Rightarrow> form \<Rightarrow> serializer" where
  "posted i f =
    \<lparr>ser_class = smartcard_serializer, ser_instance = i, ser_data = Some f, ser_many = None,
     ser_context = Some (shop_request f), ser_label = Some ''dashboard'', ser_errors = None\<rparr>"

section \<open>Properties\<close>

subsection \<open>What the methods compute\<close>

lemmas shop_defs = shop_env_def shop_view_def shop_request_def shop_world_def admin_def
  sdhc_card_def shop_metas_def smartcard_serializer_def product_serializer_def
  summary_serializer_def smartcard_options_def product_options_def

lemmas py_defs = py_return_def py_raise_def py_pass_def py_seq_def py_call_def

lemma get_serializer_class_body_eq:
  "get_serializer_class_body tail env v w =
    (if suffix v = Some ''List'' then Return (list_serializer_class v)
     else if suffix v = Some ''Instance'' then
       (case drf_get_object env v (db w) of
          Inl e \<Rightarrow> Raise e
        | Inr i \<Rightarrow> Return (dict_get (detail_serializer_classes v) (Some (label_lower (meta i)))
            (ProductSerializer env)))
     else if suffix v = Some ''New'' then
       Return (dict_get (detail_serializer_classes v) (map_of (GET (request v)) ''model'')
         (ProductSerializer env))
     else Return (list_serializer_class v), w)"
  by (simp add: get_serializer_class_body_def get_object_def py_defs split: sum.splits)

lemma get_serializer_class_eq:
  "get_serializer_class env v w =
    (if suffix v = Some ''List'' then Return (list_serializer_class v)
     else if suffix v = Some ''Instance'' then
       (case drf_get_object env v (db w) of
          Inl e \<Rightarrow> Raise e
        | Inr i \<Rightarrow> Return (dict_get (detail_serializer_classes v) (Some (label_lower (meta i)))
            (ProductSerializer env)))
     else if suffix v = Some ''New'' then
       Return (dict_get (detail_serializer_classes v) (map_of (GET (request v)) ''model'')
         (ProductSerializer env))
     else Return (list_serializer_class v), w)"
  by (simp add: get_serializer_class_def get_serializer_class_body_eq)

lemma get_serializer_class_world: "snd (get_serializer_class env v w) = w"
  by (simp add: get_serializer_class_eq)

lemma get_serializer_class_not_Next: "fst (get_serializer_class env v w) \<noteq> Next"
  by (simp add: get_serializer_class_eq split: sum.splits)

lemma get_list_display_eq:
  "get_list_display v w =
    (Return (case list_display v of
               Some ld \<Rightarrow> ld
             | None \<Rightarrow> Meta_fields (metas w (Meta (list_serializer_class v)))), w)"
  by (simp add: get_list_display_def py_defs split: option.splits)

lemma get_serializer_Return:
  assumes "fst (get_serializer_class env v w) = Return c"
  shows "get_serializer env v args kw w =
    (Return (instantiate c args (kw\<lparr>kw_context := Some (request v), kw_label := Some ''dashboard''\<rparr>)),
     if kw_many kw = Some True then
       w\<lparr>metas := (metas w)(Meta c := (metas w (Meta c))
            \<lparr>Meta_fields := ''pk'' # (case list_display v of
                 Some ld \<Rightarrow> ld
               | None \<Rightarrow> Meta_fields (metas w (Meta (list_serializer_class v))))\<rparr>)\<rparr>
     else w)"
proof -
  from assms have "get_serializer_class env v w = (Return c, w)"
    using get_serializer_class_world [of env v w] by (cases "get_serializer_class env v w") simp
  then show ?thesis
    by (simp add: get_serializer_def py_call_def py_seq_def py_pass_def py_return_def
        get_list_display_eq set_Meta_fields_def get_serializer_context_def Let_def)
qed

lemma get_serializer_Raise:
  assumes "fst (get_serializer_class env v w) = Raise e"
  shows "get_serializer env v args kw w = (Raise e, w)"
proof -
  from assms have "get_serializer_class env v w = (Raise e, w)"
    using get_serializer_class_world [of env v w] by (cases "get_serializer_class env v w") simp
  then show ?thesis
    by (simp add: get_serializer_def py_call_def)
qed

lemma str_format_dot: "str_format env ''{}.{}'' [a, b] = Inr (a @ ''.'' @ b)"
  by (simp add: str_format_def)

lemma str_format_Add: "str_format env ''Add {}'' [a] = Inr (''Add '' @ a)"
  by (simp add: str_format_def)

lemma str_format_examples:
  "str_format env ''{0} {1} {0}'' [''a'', ''b''] = Inr ''a b a''"
  "str_format env ''{{}} {}'' [''a'', ''b''] = Inr ''{} a''"
  "str_format env ''{} {0}'' [''a'', ''b''] = Inl ValueError"
  "str_format env ''{0} {}'' [''a'', ''b''] = Inl ValueError"
  "str_format env ''{x1}'' [''a'', ''b''] = Inl (KeyError ''x1'')"
  "str_format env ''{2}'' [''a'', ''b''] = Inl IndexError"
  "str_format env ''a}'' [''a'', ''b''] = Inl ValueError"
  "str_format env ''{0!r}'' [''a'', ''b''] = py_format env ''{0!r}'' [''a'', ''b'']"
  by (simp_all add: str_format_def digit_char_def name_char_def nat_of_digits_def)

lemma create_eq:
  assumes "get_serializer env v None (no_kwargs\<lparr>kw_data := Some (data (request v))\<rparr>) w = (Return s, w1)"
  shows "create env v w =
    (if run_validation env s = [] then
       (Return (HttpResponseRedirect (reverse env ''dashboard:product-list'' [])),
        w1\<lparr>db := orm_save env (s\<lparr>ser_errors := Some []\<rparr>) (db w1),
           saved := saved w1 @ [s\<lparr>ser_errors := Some []\<rparr>]\<rparr>)
     else
       (Return (Response [(''serializer'', Serializer (s\<lparr>ser_errors := Some (run_validation env s)\<rparr>))]),
        w1))"
  using assms
  by (simp add: create_def py_call_def py_seq_def py_pass_def py_return_def is_valid_def
      save_def redirect_def Let_def)

lemma update_eq:
  assumes "drf_get_object env v (db w) = Inr i"
    and "get_serializer env v (Some i) (no_kwargs\<lparr>kw_data := Some (data (request v))\<rparr>) w = (Return s, w1)"
  shows "update env v w =
    (if run_validation env s = [] then
       (Return (HttpResponseRedirect (reverse env ''dashboard:product-list'' [])),
        w1\<lparr>db := orm_save env (s\<lparr>ser_errors := Some []\<rparr>) (db w1),
           saved := saved w1 @ [s\<lparr>ser_errors := Some []\<rparr>]\<rparr>)
     else (Next, w1))"
  using assms
  by (simp add: update_def get_object_def py_call_def py_seq_def py_pass_def py_return_def
      is_valid_def save_def redirect_def Let_def)

lemma get_serializer_world:
  assumes "kw_many kw \<noteq> Some True"
  shows "snd (get_serializer env v args kw w) = w"
proof (cases "fst (get_serializer_class env v w)")
  case Next
  then show ?thesis by (simp add: get_serializer_class_not_Next)
next
  case (Return c)
  from get_serializer_Return [OF this] assms show ?thesis by simp
next
  case (Raise e)
  from get_serializer_Raise [OF this] show ?thesis by simp
qed

lemma shop_get_serializer_New:
  "get_serializer shop_env (shop_view (Some ''New'') f) None
     (no_kwargs\<lparr>kw_data := Some (data (request (shop_view (Some ''New'') f)))\<rparr>) shop_world =
   (Return (posted None f), shop_world)"
proof -
  have "fst (get_serializer_class shop_env (shop_view (Some ''New'') f) shop_world) =
      Return smartcard_serializer"
    by (simp add: get_serializer_class_eq dict_get_def shop_defs)
  from get_serializer_Return [OF this] show ?thesis
    by (simp add: no_kwargs_def instantiate_def posted_def shop_view_def shop_request_def)
qed

lemma shop_get_serializer_Instance:
  "get_serializer shop_env (shop_view (Some ''Instance'') f) (Some sdhc_card)
     (no_kwargs\<lparr>kw_data := Some (data (request (shop_view (Some ''Instance'') f)))\<rparr>) shop_world =
   (Return (posted (Some sdhc_card) f), shop_world)"
proof -
  have "fst (get_serializer_class shop_env (shop_view (Some ''Instance'') f) shop_world) =
      Return smartcard_serializer"
    by (simp add: get_serializer_class_eq dict_get_def shop_defs)
  from get_serializer_Return [OF this] show ?thesis
    by (simp add: no_kwargs_def instantiate_def posted_def shop_view_def shop_request_def)
qed

lemma shop_get_object:
  "drf_get_object shop_env (shop_view sfx f) (db shop_world) = Inr sdhc_card"
  by (simp add: shop_env_def shop_view_def shop_world_def)

lemma shop_validation:
  "run_validation shop_env (posted i good_form) = []"
  "run_validation shop_env (posted i bad_form) = [(''product_name'', [''This field is required.''])]"
  by (simp_all add: shop_env_def posted_def good_form_def bad_form_def)

subsection \<open>The claims\<close>

text \<open>
  C2. \<open>get_serializer_class\<close> selects by the suffix alone: \<open>list_serializer_class\<close> for
  \<open>List\<close>; for \<open>Instance\<close> the entry of \<open>detail_serializer_classes\<close> under the fetched
  instance's lower-cased model label, \<open>ProductSerializer\<close> when there is none; for \<open>New\<close> the
  entry under the request's \<open>model\<close> GET parameter, \<open>ProductSerializer\<close> when the parameter
  or the entry is missing.
\<close>

theorem get_serializer_class_by_suffix:
  "(suffix v = Some ''List'' \<longrightarrow>
      get_serializer_class env v w = (Return (list_serializer_class v), w)) \<and>
   (suffix v = Some ''Instance'' \<longrightarrow>
      (\<forall>i. drf_get_object env v (db w) = Inr i \<longrightarrow>
         get_serializer_class env v w =
           (Return (case map_of (detail_serializer_classes v) (label_lower (meta i)) of
                      None \<Rightarrow> ProductSerializer env
                    | Some c \<Rightarrow> c), w))) \<and>
   (suffix v = Some ''New'' \<longrightarrow>
      get_serializer_class env v w =
        (Return (case map_of (GET (request v)) ''model'' of
                   None \<Rightarrow> ProductSerializer env
                 | Some m \<Rightarrow>
                     (case map_of (detail_serializer_classes v) m of
                        None \<Rightarrow> ProductSerializer env
                      | Some c \<Rightarrow> c)), w))"
  by (simp add: get_serializer_class_eq dict_get_def)

theorem get_serializer_class_by_suffix_witness:
  "get_serializer_class shop_env (shop_view (Some ''List'') []) shop_world =
     (Return summary_serializer, shop_world) \<and>
   get_serializer_class shop_env (shop_view (Some ''Instance'') []) shop_world =
     (Return smartcard_serializer, shop_world) \<and>
   get_serializer_class shop_env ((shop_view (Some ''New'') [])\<lparr>detail_serializer_classes := []\<rparr>)
       shop_world =
     (Return product_serializer, shop_world)"
  using get_serializer_class_by_suffix [of "shop_view (Some ''List'') []" shop_env shop_world]
    get_serializer_class_by_suffix [of "shop_view (Some ''Instance'') []" shop_env shop_world]
    get_serializer_class_by_suffix
      [of "(shop_view (Some ''New'') [])\<lparr>detail_serializer_classes := []\<rparr>" shop_env shop_world]
  by (simp add: shop_defs)

text \<open>
  C4. The route table maps methods to actions exactly so: on the prefix URL, GET to
  \<open>list\<close>; on the \<open>{lookup}/change\<close> URL, GET to \<open>retrieve\<close> and POST to \<open>update\<close>; on the
  \<open>add\<close> URL, GET to \<open>new\<close> and POST to \<open>create\<close>; and nothing else.
\<close>

theorem routes_method_map:
  "method_map routes =
    [ (''^{prefix}{trailing_slash}$'', ''get'', ''list''),
      (''^{prefix}/{lookup}/change{trailing_slash}$'', ''get'', ''retrieve''),
      (''^{prefix}/{lookup}/change{trailing_slash}$'', ''post'', ''update''),
      (''^{prefix}/add{trailing_slash}$'', ''get'', ''new''),
      (''^{prefix}/add{trailing_slash}$'', ''post'', ''create'') ]"
  by (simp add: method_map_def routes_def)

text \<open>
  C9. \<open>get_serializer_class\<close> handles every suffix value: for a suffix other than \<open>List\<close>,
  \<open>Instance\<close> and \<open>New\<close> (an absent one too) it returns \<open>list_serializer_class\<close>; whatever
  statement stands behind that return is never run, so the method is the same for every
  such statement and the \<open>raise\<close> is unreachable; and the method never runs to its end: it
  returns a class, or passes on what \<open>get_object\<close> raised in the \<open>Instance\<close> branch.
\<close>

theorem get_serializer_class_total:
  "(suffix v \<notin> {Some ''List'', Some ''Instance'', Some ''New''} \<longrightarrow>
      get_serializer_class env v w = (Return (list_serializer_class v), w)) \<and>
   (\<forall>tail. get_serializer_class_body tail env v w = get_serializer_class env v w) \<and>
   ((\<exists>c. get_serializer_class env v w = (Return c, w)) \<or>
    (\<exists>e. suffix v = Some ''Instance'' \<and> drf_get_object env v (db w) = Inl e \<and>
         get_serializer_class env v w = (Raise e, w)))"
  by (auto simp add: get_serializer_class_eq get_serializer_class_body_eq split: sum.splits)

theorem get_serializer_class_total_witness:
  "get_serializer_class shop_env (shop_view None []) shop_world =
     (Return summary_serializer, shop_world) \<and>
   get_serializer_class shop_env (shop_view (Some ''Detail'') []) shop_world =
     (Return summary_serializer, shop_world) \<and>
   get_serializer_class_body (py_raise TypeError) shop_env (shop_view (Some ''Detail'') []) shop_world =
     (Return summary_serializer, shop_world)"
  using get_serializer_class_total [of "shop_view None []" shop_env shop_world]
    get_serializer_class_total [of "shop_view (Some ''Detail'') []" shop_env shop_world]
  by (simp add: shop_defs)

text \<open>
  C5. \<open>has_add_permission\<close> returns the result of one call of \<open>request.user.has_perm\<close>, on
  the app label, a dot and the codename that \<open>get_permission_codename\<close> derives for \<open>add\<close>
  from the product model's options; it changes nothing.
\<close>

theorem has_add_permission_has_perm:
  "has_add_permission env v w =
    (Return (has_perm env (request_user (request v))
       (APP_LABEL env @ ''.'' @ get_permission_codename env ''add'' (ProductModel env))), w)"
  by (simp add: has_add_permission_def py_return_def str_format_dot)

theorem has_add_permission_has_perm_witness:
  "has_add_permission shop_env (shop_view (Some ''List'') []) shop_world = (Return True, shop_world) \<and>
   has_add_permission shop_env
     ((shop_view (Some ''List'') [])\<lparr>request := (shop_request [])\<lparr>request_user := admin\<lparr>perms := []\<rparr>\<rparr>\<rparr>)
     shop_world = (Return False, shop_world)"
  using has_add_permission_has_perm [of shop_env "shop_view (Some ''List'') []" shop_world]
    has_add_permission_has_perm [of shop_env
      "(shop_view (Some ''List'') [])\<lparr>request := (shop_request [])\<lparr>request_user := admin\<lparr>perms := []\<rparr>\<rparr>\<rparr>"
      shop_world]
  by (simp add: shop_defs)

text \<open>
  C6, amended. \<open>get_breadcrumbs\<close> reads its labels from the models' options: the list
  starts with the router's Dashboard entry and the product model's plural name linked to the
  product list; for \<open>Instance\<close> the third entry is the string form of the fetched instance;
  for \<open>New\<close> it is the translation of the message \<open>Add {}\<close> formatted with the verbose
  name of the selected serializer's model, and what the formatting raises is raised; where
  the message is left untranslated that label is \<open>Add\<close> and the verbose name; for any
  other suffix there are the two entries only.
\<close>

theorem get_breadcrumbs_labels:
  "(suffix v = Some ''Instance'' \<longrightarrow>
      (\<forall>i. drf_get_object env v (db w) = Inr i \<longrightarrow>
         get_breadcrumbs env v w =
           (Return [(ugettext_lazy env ''Dashboard'', reverse env ''dashboard:root'' []),
                    (verbose_name_plural (ProductModel env), reverse env ''dashboard:product-list'' []),
                    (str_of i, path_info (request v))], w))) \<and>
   (suffix v = Some ''New'' \<longrightarrow>
      (\<forall>c. get_serializer_class env v w = (Return c, w) \<longrightarrow>
         get_breadcrumbs env v w =
           (case str_format env (ugettext_lazy env ''Add {}'')
                   [verbose_name (Meta_model (metas w (Meta c)))] of
              Inl e \<Rightarrow> (Raise e, w)
            | Inr label \<Rightarrow>
                (Return [(ugettext_lazy env ''Dashboard'', reverse env ''dashboard:root'' []),
                         (verbose_name_plural (ProductModel env),
                          reverse env ''dashboard:product-list'' []),
                         (label, path_info (request v))], w)) \<and>
         (ugettext_lazy env ''Add {}'' = ''Add {}'' \<longrightarrow>
            get_breadcrumbs env v w =
              (Return [(ugettext_lazy env ''Dashboard'', reverse env ''dashboard:root'' []),
                       (verbose_name_plural (ProductModel env),
                        reverse env ''dashboard:product-list'' []),
                       (''Add '' @ verbose_name (Meta_model (metas w (Meta c))),
                        path_info (request v))], w)))) \<and>
   (suffix v \<notin> {Some ''Instance'', Some ''New''} \<longrightarrow>
      get_breadcrumbs env v w =
        (Return [(ugettext_lazy env ''Dashboard'', reverse env ''dashboard:root'' []),
                 (verbose_name_plural (ProductModel env), reverse env ''dashboard:product-list'' [])],
         w))"
proof (intro conjI impI allI)
  fix i
  assume "suffix v = Some ''Instance''" "drf_get_object env v (db w) = Inr i"
  then show "get_breadcrumbs env v w =
      (Return [(ugettext_lazy env ''Dashboard'', reverse env ''dashboard:root'' []),
               (verbose_name_plural (ProductModel env), reverse env ''dashboard:product-list'' []),
               (str_of i, path_info (request v))], w)"
    by (simp add: Let_def get_breadcrumbs_def DashboardRouter_get_breadcrumbs_def get_object_def
        py_call_def py_return_def)
next
  fix c
  assume new: "suffix v = Some ''New''"
    and cls: "get_serializer_class env v w = (Return c, w)"
  from new cls show general: "get_breadcrumbs env v w =
      (case str_format env (ugettext_lazy env ''Add {}'')
              [verbose_name (Meta_model (metas w (Meta c)))] of
         Inl e \<Rightarrow> (Raise e, w)
       | Inr label \<Rightarrow>
           (Return [(ugettext_lazy env ''Dashboard'', reverse env ''dashboard:root'' []),
                    (verbose_name_plural (ProductModel env),
                     reverse env ''dashboard:product-list'' []),
                    (label, path_info (request v))], w))"
    by (simp add: Let_def get_breadcrumbs_def DashboardRouter_get_breadcrumbs_def py_call_def
        split: sum.splits)
  assume "ugettext_lazy env ''Add {}'' = ''Add {}''"
  with general show "get_breadcrumbs env v w =
      (Return [(ugettext_lazy env ''Dashboard'', reverse env ''dashboard:root'' []),
               (verbose_name_plural (ProductModel env),
                reverse env ''dashboard:product-list'' []),
               (''Add '' @ verbose_name (Meta_model (metas w (Meta c))),
                path_info (request v))], w)"
    by (simp add: str_format_Add)
next
  assume "suffix v \<notin> {Some ''Instance'', Some ''New''}"
  then show "get_breadcrumbs env v w =
      (Return [(ugettext_lazy env ''Dashboard'', reverse env ''dashboard:root'' []),
               (verbose_name_plural (ProductModel env), reverse env ''dashboard:product-list'' [])],
       w)"
    by (simp add: Let_def get_breadcrumbs_def DashboardRouter_get_breadcrumbs_def py_return_def)
qed

theorem get_breadcrumbs_labels_witness:
  "get_breadcrumbs shop_env (shop_view (Some ''Instance'') []) shop_world =
     (Return [(''Dashboard'', ''/dashboard/''), (''Products'', ''/dashboard/products/''),
              (''SDHC Card 4GB'', ''/dashboard/products/'')], shop_world) \<and>
   get_breadcrumbs shop_env (shop_view (Some ''New'') []) shop_world =
     (Return [(''Dashboard'', ''/dashboard/''), (''Products'', ''/dashboard/products/''),
              (''Add Smart Card'', ''/dashboard/products/'')], shop_world) \<and>
   get_breadcrumbs german_env ((shop_view (Some ''New'') [])\<lparr>detail_serializer_classes := []\<rparr>)
       shop_world =
     (Return [(''Dashboard'', ''/dashboard/''), (''Products'', ''/dashboard/products/''),
              (''Product hinzufuegen'', ''/dashboard/products/'')], shop_world) \<and>
   get_breadcrumbs shop_env (shop_view (Some ''List'') []) shop_world =
     (Return [(''Dashboard'', ''/dashboard/''), (''Products'', ''/dashboard/products/'')],
      shop_world)"
proof -
  have cls: "get_serializer_class shop_env (shop_view (Some ''New'') []) shop_world =
      (Return smartcard_serializer, shop_world)"
    by (simp add: get_serializer_class_eq dict_get_def shop_defs)
  have cls': "get_serializer_class german_env
      ((shop_view (Some ''New'') [])\<lparr>detail_serializer_classes := []\<rparr>) shop_world =
      (Return product_serializer, shop_world)"
    by (simp add: get_serializer_class_eq dict_get_def german_env_def shop_defs)
  have fmt: "str_format german_env (ugettext_lazy german_env ''Add {}'')
      [verbose_name (Meta_model (metas shop_world (Meta product_serializer)))] =
      Inr ''Product hinzufuegen''"
    by (simp add: str_format_def digit_char_def name_char_def nat_of_digits_def german_env_def shop_defs)
  have same: "ugettext_lazy shop_env ''Add {}'' = ''Add {}''"
    by (simp add: shop_env_def)
  note n = get_breadcrumbs_labels [of "shop_view (Some ''New'') []" shop_env shop_world,
      THEN conjunct2, THEN conjunct1, rule_format, OF _ cls, THEN conjunct2, rule_format, OF _ same]
  note g = get_breadcrumbs_labels
      [of "(shop_view (Some ''New'') [])\<lparr>detail_serializer_classes := []\<rparr>" german_env shop_world,
      THEN conjunct2, THEN conjunct1, rule_format, OF _ cls', THEN conjunct1]
  have n': "get_breadcrumbs shop_env (shop_view (Some ''New'') []) shop_world =
      (Return [(''Dashboard'', ''/dashboard/''), (''Products'', ''/dashboard/products/''),
               (''Add Smart Card'', ''/dashboard/products/'')], shop_world)"
    using n by (simp add: shop_defs)
  have g': "get_breadcrumbs german_env
      ((shop_view (Some ''New'') [])\<lparr>detail_serializer_classes := []\<rparr>) shop_world =
      (Return [(''Dashboard'', ''/dashboard/''), (''Products'', ''/dashboard/products/''),
               (''Product hinzufuegen'', ''/dashboard/products/'')], shop_world)"
    using g fmt by (simp add: german_env_def shop_defs)
  show ?thesis
    using get_breadcrumbs_labels [of "shop_view (Some ''Instance'') []" shop_env shop_world]
      get_breadcrumbs_labels [of "shop_view (Some ''List'') []" shop_env shop_world] n' g'
    by (simp add: shop_defs)
qed

text \<open>
  C6 as worded has the \<open>New\<close> label be \<open>Add\<close> followed by the verbose name. The label goes
  through \<open>ugettext_lazy\<close>, so under a translation of \<open>Add {}\<close> it is not: with
  \<open>{0} hinzufuegen\<close> the smart card's entry reads \<open>Smart Card hinzufuegen\<close>.
\<close>

theorem get_breadcrumbs_Add_label_counterexample:
  "get_serializer_class german_env (shop_view (Some ''New'') []) shop_world =
     (Return smartcard_serializer, shop_world) \<and>
   verbose_name (Meta_model (metas shop_world (Meta smartcard_serializer))) = ''Smart Card'' \<and>
   get_breadcrumbs german_env (shop_view (Some ''New'') []) shop_world =
     (Return [(''Dashboard'', ''/dashboard/''), (''Products'', ''/dashboard/products/''),
              (''Smart Card hinzufuegen'', ''/dashboard/products/'')], shop_world) \<and>
   get_breadcrumbs german_env (shop_view (Some ''New'') []) shop_world \<noteq>
     (Return [(''Dashboard'', ''/dashboard/''), (''Products'', ''/dashboard/products/''),
              (''Add '' @ verbose_name (Meta_model (metas shop_world (Meta smartcard_serializer))),
               ''/dashboard/products/'')], shop_world)"
  by (simp add: get_breadcrumbs_def DashboardRouter_get_breadcrumbs_def py_call_def Let_def
      get_serializer_class_eq dict_get_def str_format_def digit_char_def name_char_def nat_of_digits_def
      german_env_def shop_defs)

text \<open>
  C7. On the change route \<open>retrieve\<close> passes through: it fetches the instance, builds the
  serializer of the selected class on that instance (no data, not \<open>many\<close>) and returns a
  response with exactly that serializer and that instance; the product table, the \<open>Meta\<close>
  objects and the save trace are as before. What \<open>get_object\<close> raises is passed on.
\<close>

theorem retrieve_pass_through:
  "suffix v = Some ''Instance'' \<longrightarrow>
     (\<forall>i. drf_get_object env v (db w) = Inr i \<longrightarrow>
        retrieve env v w =
          (Return (Response
             [(''serializer'', Serializer
                 \<lparr>ser_class =
                    (case map_of (detail_serializer_classes v) (label_lower (meta i)) of
                       None \<Rightarrow> ProductSerializer env
                     | Some c \<Rightarrow> c),
                  ser_instance = Some i, ser_data = None, ser_many = None,
                  ser_context = Some (request v), ser_label = Some ''dashboard'',
                  ser_errors = None\<rparr>),
              (''instance'', Instance i)]), w)) \<and>
     (\<forall>e. drf_get_object env v (db w) = Inl e \<longrightarrow> retrieve env v w = (Raise e, w))"
proof (intro impI conjI allI)
  fix i
  assume sfx: "suffix v = Some ''Instance''" and obj: "drf_get_object env v (db w) = Inr i"
  let ?c = "case map_of (detail_serializer_classes v) (label_lower (meta i)) of
      None \<Rightarrow> ProductSerializer env | Some c \<Rightarrow> c"
  from sfx obj have "fst (get_serializer_class env v w) = Return ?c"
    by (simp add: get_serializer_class_eq dict_get_def)
  from get_serializer_Return [OF this, of "Some i" no_kwargs]
  have "get_serializer env v (Some i) no_kwargs w =
      (Return (instantiate ?c (Some i)
         (no_kwargs\<lparr>kw_context := Some (request v), kw_label := Some ''dashboard''\<rparr>)), w)"
    by (simp add: no_kwargs_def)
  with obj show "retrieve env v w =
      (Return (Response
         [(''serializer'', Serializer
             \<lparr>ser_class = ?c, ser_instance = Some i, ser_data = None, ser_many = None,
              ser_context = Some (request v), ser_label = Some ''dashboard'',
              ser_errors = None\<rparr>),
          (''instance'', Instance i)]), w)"
    by (simp add: retrieve_def get_object_def py_call_def py_return_def instantiate_def
        no_kwargs_def serializer_val_def instance_val_def)
next
  fix e
  assume "drf_get_object env v (db w) = Inl e"
  then show "retrieve env v w = (Raise e, w)"
    by (simp add: retrieve_def get_object_def py_call_def)
qed

theorem retrieve_pass_through_witness:
  "retrieve shop_env (shop_view (Some ''Instance'') []) shop_world =
     (Return (Response
        [(''serializer'', Serializer
            \<lparr>ser_class = smartcard_serializer, ser_instance = Some sdhc_card, ser_data = None,
             ser_many = None, ser_context = Some (shop_request []),
             ser_label = Some ''dashboard'', ser_errors = None\<rparr>),
         (''instance'', Instance sdhc_card)]), shop_world) \<and>
   retrieve shop_env ((shop_view (Some ''Instance'') [])\<lparr>lookup := ''9''\<rparr>) shop_world =
     (Raise Http404, shop_world)"
  using retrieve_pass_through [of "shop_view (Some ''Instance'') []" shop_env shop_world]
    retrieve_pass_through [of "(shop_view (Some ''Instance'') [])\<lparr>lookup := ''9''\<rparr>"
      shop_env shop_world]
  by (simp add: shop_defs)

text \<open>
  C3. A POST whose data the serializer finds valid is saved and redirected: \<open>create\<close>, and
  \<open>update\<close> on a fetched instance, call \<open>save\<close> on the validated serializer once (the
  table is what the ORM makes of it, the trace grows by that serializer) and return a
  redirect to the URL of \<open>dashboard:product-list\<close>. Building the serializer changed nothing.
\<close>

theorem valid_post_saves_and_redirects:
  "(\<forall>s w1.
      get_serializer env v None (no_kwargs\<lparr>kw_data := Some (data (request v))\<rparr>) w = (Return s, w1) \<longrightarrow>
      run_validation env s = [] \<longrightarrow>
      w1 = w \<and>
      create env v w =
        (Return (HttpResponseRedirect (reverse env ''dashboard:product-list'' [])),
         w\<lparr>db := orm_save env (s\<lparr>ser_errors := Some []\<rparr>) (db w),
           saved := saved w @ [s\<lparr>ser_errors := Some []\<rparr>]\<rparr>)) \<and>
   (\<forall>i s w1.
      drf_get_object env v (db w) = Inr i \<longrightarrow>
      get_serializer env v (Some i) (no_kwargs\<lparr>kw_data := Some (data (request v))\<rparr>) w = (Return s, w1) \<longrightarrow>
      run_validation env s = [] \<longrightarrow>
      w1 = w \<and>
      update env v w =
        (Return (HttpResponseRedirect (reverse env ''dashboard:product-list'' [])),
         w\<lparr>db := orm_save env (s\<lparr>ser_errors := Some []\<rparr>) (db w),
           saved := saved w @ [s\<lparr>ser_errors := Some []\<rparr>]\<rparr>))"
proof (intro conjI allI impI)
  fix s w1
  assume ser: "get_serializer env v None (no_kwargs\<lparr>kw_data := Some (data (request v))\<rparr>) w = (Return s, w1)"
    and ok: "run_validation env s = []"
  from get_serializer_world [of "no_kwargs\<lparr>kw_data := Some (data (request v))\<rparr>" env v None w] ser
  show eq: "w1 = w" by (simp add: no_kwargs_def)
  from create_eq [OF ser] ok eq
  show "create env v w =
      (Return (HttpResponseRedirect (reverse env ''dashboard:product-list'' [])),
       w\<lparr>db := orm_save env (s\<lparr>ser_errors := Some []\<rparr>) (db w),
         saved := saved w @ [s\<lparr>ser_errors := Some []\<rparr>]\<rparr>)"
    by simp
next
  fix i s w1
  assume obj: "drf_get_object env v (db w) = Inr i"
    and ser: "get_serializer env v (Some i) (no_kwargs\<lparr>kw_data := Some (data (request v))\<rparr>) w = (Return s, w1)"
    and ok: "run_validation env s = []"
  from get_serializer_world [of "no_kwargs\<lparr>kw_data := Some (data (request v))\<rparr>" env v "Some i" w] ser
  show eq: "w1 = w" by (simp add: no_kwargs_def)
  from update_eq [OF obj ser] ok eq
  show "update env v w =
      (Return (HttpResponseRedirect (reverse env ''dashboard:product-list'' [])),
       w\<lparr>db := orm_save env (s\<lparr>ser_errors := Some []\<rparr>) (db w),
         saved := saved w @ [s\<lparr>ser_errors := Some []\<rparr>]\<rparr>)"
    by simp
qed

theorem valid_post_saves_and_redirects_witness:
  "create shop_env (shop_view (Some ''New'') good_form) shop_world =
     (Return (HttpResponseRedirect ''/dashboard/products/''),
      shop_world
        \<lparr>db := [(''7'', sdhc_card),
                (''8'', \<lparr>pk = ''8'', meta = smartcard_options, str_of = ''new''\<rparr>)],
         saved := [(posted None good_form)\<lparr>ser_errors := Some []\<rparr>]\<rparr>) \<and>
   update shop_env (shop_view (Some ''Instance'') good_form) shop_world =
     (Return (HttpResponseRedirect ''/dashboard/products/''),
      shop_world
        \<lparr>db := [(''7'', sdhc_card\<lparr>str_of := ''changed''\<rparr>), (''7'', sdhc_card)],
         saved := [(posted (Some sdhc_card) good_form)\<lparr>ser_errors := Some []\<rparr>]\<rparr>)"
proof -
  note c = valid_post_saves_and_redirects
    [of shop_env "shop_view (Some ''New'') good_form" shop_world,
      THEN conjunct1, rule_format, OF shop_get_serializer_New shop_validation(1)]
  note u = valid_post_saves_and_redirects
    [of shop_env "shop_view (Some ''Instance'') good_form" shop_world,
      THEN conjunct2, rule_format, OF shop_get_object shop_get_serializer_Instance
      shop_validation(1)]
  have r: "reverse shop_env ''dashboard:product-list'' [] = ''/dashboard/products/''"
    by (simp add: shop_env_def)
  have s1: "orm_save shop_env ((posted None good_form)\<lparr>ser_errors := Some []\<rparr>) (db shop_world) =
      [(''7'', sdhc_card), (''8'', \<lparr>pk = ''8'', meta = smartcard_options, str_of = ''new''\<rparr>)]"
    by (simp add: shop_env_def posted_def shop_world_def)
  have s2: "orm_save shop_env ((posted (Some sdhc_card) good_form)\<lparr>ser_errors := Some []\<rparr>)
      (db shop_world) = [(''7'', sdhc_card\<lparr>str_of := ''changed''\<rparr>), (''7'', sdhc_card)]"
    by (simp add: shop_env_def posted_def shop_world_def sdhc_card_def)
  have e: "saved shop_world = []"
    by (simp add: shop_world_def)
  from c u show ?thesis
    by (simp add: r s1 s2 e)
qed

text \<open>
  C8. A POST whose data the serializer finds invalid is never saved: after \<open>create\<close>, and
  after \<open>update\<close> on a fetched instance, the save trace and the product table are as
  before; the whole state is.
\<close>

theorem invalid_post_never_saves:
  "(\<forall>s w1.
      get_serializer env v None (no_kwargs\<lparr>kw_data := Some (data (request v))\<rparr>) w = (Return s, w1) \<longrightarrow>
      run_validation env s \<noteq> [] \<longrightarrow>
      saved (snd (create env v w)) = saved w \<and> db (snd (create env v w)) = db w \<and>
      snd (create env v w) = w) \<and>
   (\<forall>i s w1.
      drf_get_object env v (db w) = Inr i \<longrightarrow>
      get_serializer env v (Some i) (no_kwargs\<lparr>kw_data := Some (data (request v))\<rparr>) w = (Return s, w1) \<longrightarrow>
      run_validation env s \<noteq> [] \<longrightarrow>
      saved (snd (update env v w)) = saved w \<and> db (snd (update env v w)) = db w \<and>
      snd (update env v w) = w)"
proof (intro conjI allI impI)
  fix s w1
  assume ser: "get_serializer env v None (no_kwargs\<lparr>kw_data := Some (data (request v))\<rparr>) w = (Return s, w1)"
    and bad: "run_validation env s \<noteq> []"
  from get_serializer_world [of "no_kwargs\<lparr>kw_data := Some (data (request v))\<rparr>" env v None w] ser
  have eq: "w1 = w" by (simp add: no_kwargs_def)
  from create_eq [OF ser] bad eq show same: "snd (create env v w) = w" by simp
  from same show "saved (snd (create env v w)) = saved w" by simp
  from same show "db (snd (create env v w)) = db w" by simp
next
  fix i s w1
  assume obj: "drf_get_object env v (db w) = Inr i"
    and ser: "get_serializer env v (Some i) (no_kwargs\<lparr>kw_data := Some (data (request v))\<rparr>) w = (Return s, w1)"
    and bad: "run_validation env s \<noteq> []"
  from get_serializer_world [of "no_kwargs\<lparr>kw_data := Some (data (request v))\<rparr>" env v "Some i" w] ser
  have eq: "w1 = w" by (simp add: no_kwargs_def)
  from update_eq [OF obj ser] bad eq show same: "snd (update env v w) = w" by simp
  from same show "saved (snd (update env v w)) = saved w" by simp
  from same show "db (snd (update env v w)) = db w" by simp
qed

theorem invalid_post_never_saves_witness:
  "snd (create shop_env (shop_view (Some ''New'') bad_form) shop_world) = shop_world \<and>
   snd (update shop_env (shop_view (Some ''Instance'') bad_form) shop_world) = shop_world \<and>
   saved (snd (update shop_env (shop_view (Some ''Instance'') bad_form) shop_world)) = []"
proof -
  have bad: "run_validation shop_env (posted i bad_form) \<noteq> []" for i
    by (simp add: shop_validation)
  note c = invalid_post_never_saves
    [of shop_env "shop_view (Some ''New'') bad_form" shop_world,
      THEN conjunct1, rule_format, OF shop_get_serializer_New bad]
  note u = invalid_post_never_saves
    [of shop_env "shop_view (Some ''Instance'') bad_form" shop_world,
      THEN conjunct2, rule_format, OF shop_get_object shop_get_serializer_Instance bad]
  have e: "saved shop_world = []"
    by (simp add: shop_world_def)
  from c u show ?thesis
    by (simp add: e)
qed

text \<open>
  C1. A POST with invalid data is to get the form back, with the serializer and its error
  messages. \<open>create\<close> does so. \<open>update\<close> does not: its body ends after the \<open>if\<close>, so on
  invalid data it runs to its end and hands back \<open>None\<close> instead of a response. Here a form
  without the product name is posted to the change route of the smart card, and to the add
  route.
\<close>

theorem update_invalid_returns_None:
  "update shop_env (shop_view (Some ''Instance'') bad_form) shop_world = (Next, shop_world) \<and>
   create shop_env (shop_view (Some ''New'') bad_form) shop_world =
     (Return (Response
        [(''serializer'', Serializer ((posted None bad_form)
            \<lparr>ser_errors := Some [(''product_name'', [''This field is required.''])]\<rparr>))]),
      shop_world)"
  using update_eq [OF shop_get_object shop_get_serializer_Instance, of bad_form]
    create_eq [OF shop_get_serializer_New, of bad_form]
  by (simp add: shop_validation)



end
